theory Spec2Isabelle
  imports Complex_Main
begin

section \<open>Regular expressions of the capture line parser\<close>

text \<open>
  \<^verbatim>\<open>NetworkTap.processPacket\<close> scans each line with eight regular expressions through
  \<^verbatim>\<open>String.prototype.match\<close> (no \<^verbatim>\<open>g\<close> flag): the leftmost match wins, and at one start
  position the backtracking matcher prefers the longest repetition of a greedy
  quantifier. The expressions of the source only use sequences of single characters,
  the classes \<^verbatim>\<open>\d\<close>, \<^verbatim>\<open>\s\<close> and \<^verbatim>\<open>[^\]]\<close>, the greedy quantifiers \<^verbatim>\<open>+\<close> and \<^verbatim>\<open>*\<close> on a
  class, and one alternation of literal words. A pattern is a list of such items and a
  match is the list of the substrings its items consumed, so that a capture group is
  the concatenation of the substrings of the items it encloses.

  Strings are lists of 8-bit characters: code units below 256.
\<close>

datatype cls = Digit | Space | Lit char | NotRBracket

definition isDigit :: "char \<Rightarrow> bool" where
  "isDigit c = (c \<in> set ''0123456789'')"

definition isSpace :: "char \<Rightarrow> bool" where
  \<comment> \<open>\<^verbatim>\<open>\s\<close> and the characters \<^verbatim>\<open>trim\<close> strips: TAB, LF, VT, FF, CR, SP, NBSP\<close>
  "isSpace c = (c \<in> set [CHR 0x09, CHR 0x0A, CHR 0x0B, CHR 0x0C, CHR 0x0D, CHR 0x20, CHR 0xA0])"

fun in_cls :: "cls \<Rightarrow> char \<Rightarrow> bool" where
  "in_cls Digit c = isDigit c"
| "in_cls Space c = isSpace c"
| "in_cls (Lit l) c = (c = l)"
| "in_cls NotRBracket c = (c \<noteq> CHR '']'')"

datatype item = One cls | Plus cls | Star cls | Alt "string list"

text \<open>
  The numbers of characters an item may consume at the head of \<open>s\<close>, in the order in which
  the backtracking matcher tries them: longest first for the greedy quantifiers, the
  alternatives from left to right for an alternation.
\<close>

fun candidates :: "item \<Rightarrow> string \<Rightarrow> nat list" where
  "candidates (One c) s = (case s of [] \<Rightarrow> [] | x # _ \<Rightarrow> if in_cls c x then [1] else [])"
| "candidates (Plus c) s = rev [1 ..< Suc (length (takeWhile (in_cls c) s))]"
| "candidates (Star c) s = rev [0 ..< Suc (length (takeWhile (in_cls c) s))]"
| "candidates (Alt ws) s = map length (filter (\<lambda>w. take (length w) s = w) ws)"

fun first_some :: "('a \<Rightarrow> 'b option) \<Rightarrow> 'a list \<Rightarrow> 'b option" where
  "first_some f [] = None"
| "first_some f (k # ks) = (case f k of Some r \<Rightarrow> Some r | None \<Rightarrow> first_some f ks)"

primrec match_items :: "item list \<Rightarrow> string \<Rightarrow> string list option" where
  "match_items [] s = Some []"
| "match_items (i # is) s =
     first_some (\<lambda>k. map_option (Cons (take k s)) (match_items is (drop k s))) (candidates i s)"

text \<open>The leftmost match: every start position from 0 to the length of the string.\<close>

fun search :: "item list \<Rightarrow> string \<Rightarrow> string list option" where
  "search its [] = match_items its []"
| "search its (c # cs) =
     (case match_items its (c # cs) of Some r \<Rightarrow> Some r | None \<Rightarrow> search its cs)"

definition grp :: "string list \<Rightarrow> nat \<Rightarrow> nat \<Rightarrow> string" where
  \<comment> \<open>the text of the items \<open>i\<close> to \<open>j - 1\<close> of a match\<close>
  "grp segs i j = concat (take (j - i) (drop i segs))"

definition lits :: "string \<Rightarrow> item list" where
  "lits w = map (\<lambda>c. One (Lit c)) w"

definition dotted2 :: "item list" where
  \<comment> \<open>\<^verbatim>\<open>\d+\.\d+\<close>\<close>
  "dotted2 = [Plus Digit, One (Lit CHR ''.''), Plus Digit]"

definition dotted4 :: "item list" where
  \<comment> \<open>\<^verbatim>\<open>\d+\.\d+\.\d+\.\d+\<close>\<close>
  "dotted4 = dotted2 @ [One (Lit CHR ''.'')] @ dotted2"

definition arrow :: "item list" where
  \<comment> \<open>\<^verbatim>\<open>\s*>\s*\<close>\<close>
  "arrow = [Star Space, One (Lit CHR ''>''), Star Space]"

definition ip_re :: "item list" where
  \<comment> \<open>\<^verbatim>\<open>/(\d+\.\d+\.\d+\.\d+)\s*>\s*(\d+\.\d+\.\d+\.\d+)/\<close>: groups are items 0-6 and 10-16\<close>
  "ip_re = dotted4 @ arrow @ dotted4"

definition protocol_re :: "item list" where
  \<comment> \<open>\<^verbatim>\<open>/(TCP|UDP|ICMP)/\<close>\<close>
  "protocol_re = [Alt [''TCP'', ''UDP'', ''ICMP'']]"

definition length_re :: "item list" where
  \<comment> \<open>\<^verbatim>\<open>/length (\d+)/\<close>: the group is item 7\<close>
  "length_re = lits ''length '' @ [Plus Digit]"

definition port_re :: "item list" where
  \<comment> \<open>\<^verbatim>\<open>/(\d+)\.(\d+)\s*>\s*(\d+)\.(\d+)/\<close>: groups are items 0, 2, 6 and 8\<close>
  "port_re = dotted2 @ arrow @ dotted2"

definition flags_re :: "item list" where
  \<comment> \<open>\<^verbatim>\<open>/Flags \[([^\]]+)\]/\<close>: the group is item 7\<close>
  "flags_re = lits ''Flags ['' @ [Plus NotRBracket, One (Lit CHR '']'')]"

definition ttl_re :: "item list" where
  \<comment> \<open>\<^verbatim>\<open>/ttl (\d+)/\<close>: the group is item 4\<close>
  "ttl_re = lits ''ttl '' @ [Plus Digit]"

definition window_re :: "item list" where
  \<comment> \<open>\<^verbatim>\<open>/win (\d+)/\<close>: the group is item 4\<close>
  "window_re = lits ''win '' @ [Plus Digit]"

definition checksum_re :: "item list" where
  \<comment> \<open>\<^verbatim>\<open>/cksum (\d+)/\<close>: the group is item 6\<close>
  "checksum_re = lits ''cksum '' @ [Plus Digit]"

section \<open>The capture adapter: \<^verbatim>\<open>NetworkTap\<close>\<close>

text \<open>
  \<^verbatim>\<open>Partial<PacketData>\<close>: every field but the timestamp may be missing. \<^verbatim>\<open>parseInt(d, 10)\<close>
  is only applied to non-empty digit strings; its value is the natural number they
  denote (the rounding of a double above \<open>2^53\<close> is not modelled).
\<close>

record PacketData =
  timestamp :: nat
  sourceIP :: "string option"
  destIP :: "string option"
  protocol :: "string option"
  length_p :: "nat option"
  sourcePort :: "nat option"
  destPort :: "nat option"
  flags :: "string option"
  ttl :: "nat option"
  window :: "nat option"
  checksum :: "nat option"

definition digit_val :: "char \<Rightarrow> nat" where
  "digit_val c = of_char c - 48"

definition parseInt :: "string \<Rightarrow> nat" where
  "parseInt ds = foldl (\<lambda>n c. 10 * n + digit_val c) 0 ds"

definition trim :: "string \<Rightarrow> string" where
  "trim s = rev (dropWhile isSpace (rev (dropWhile isSpace s)))"

fun split_on :: "char \<Rightarrow> string \<Rightarrow> string list" where
  \<comment> \<open>\<^verbatim>\<open>s.split(c)\<close>: always at least one piece\<close>
  "split_on d [] = [] # []"
| "split_on d (c # cs) =
     (if c = d then [] # split_on d cs
      else (case split_on d cs of p # ps \<Rightarrow> (c # p) # ps | [] \<Rightarrow> [c] # []))"

definition fresh_packet :: "nat \<Rightarrow> PacketData" where
  \<comment> \<open>\<^verbatim>\<open>{ timestamp: Date.now() }\<close>\<close>
  "fresh_packet now = \<lparr>timestamp = now, sourceIP = None, destIP = None, protocol = None,
     length_p = None, sourcePort = None, destPort = None, flags = None, ttl = None,
     window = None, checksum = None\<rparr>"

definition parse_ip :: "string \<Rightarrow> PacketData \<Rightarrow> PacketData" where
  "parse_ip line packet = (case search ip_re line of
       Some m \<Rightarrow> packet\<lparr>sourceIP := Some (grp m 0 7), destIP := Some (grp m 10 17)\<rparr>
     | None \<Rightarrow> packet)"

definition parse_protocol :: "string \<Rightarrow> PacketData \<Rightarrow> PacketData" where
  "parse_protocol line packet = (case search protocol_re line of
       Some m \<Rightarrow> packet\<lparr>protocol := Some (grp m 0 1)\<rparr>
     | None \<Rightarrow> packet)"

definition parse_length :: "string \<Rightarrow> PacketData \<Rightarrow> PacketData" where
  "parse_length line packet = (case search length_re line of
       Some m \<Rightarrow> packet\<lparr>length_p := Some (parseInt (grp m 7 8))\<rparr>
     | None \<Rightarrow> packet)"

definition parse_ports :: "string \<Rightarrow> PacketData \<Rightarrow> PacketData" where
  "parse_ports line packet = (case search port_re line of
       Some m \<Rightarrow> packet\<lparr>sourcePort := Some (parseInt (grp m 2 3)),
                        destPort := Some (parseInt (grp m 8 9))\<rparr>
     | None \<Rightarrow> packet)"

definition parse_flags :: "string \<Rightarrow> PacketData \<Rightarrow> PacketData" where
  "parse_flags line packet = (case search flags_re line of
       Some m \<Rightarrow> packet\<lparr>flags := Some (grp m 7 8)\<rparr>
     | None \<Rightarrow> packet)"

definition parse_ttl :: "string \<Rightarrow> PacketData \<Rightarrow> PacketData" where
  "parse_ttl line packet = (case search ttl_re line of
       Some m \<Rightarrow> packet\<lparr>ttl := Some (parseInt (grp m 4 5))\<rparr>
     | None \<Rightarrow> packet)"

definition parse_window :: "string \<Rightarrow> PacketData \<Rightarrow> PacketData" where
  "parse_window line packet = (case search window_re line of
       Some m \<Rightarrow> packet\<lparr>window := Some (parseInt (grp m 4 5))\<rparr>
     | None \<Rightarrow> packet)"

definition parse_checksum :: "string \<Rightarrow> PacketData \<Rightarrow> PacketData" where
  "parse_checksum line packet = (case search checksum_re line of
       Some m \<Rightarrow> packet\<lparr>checksum := Some (parseInt (grp m 6 7))\<rparr>
     | None \<Rightarrow> packet)"

definition scan_line :: "nat \<Rightarrow> string \<Rightarrow> PacketData" where
  \<comment> \<open>the body of the loop between the blank-line test and the emission\<close>
  "scan_line now line =
     parse_checksum line (parse_window line (parse_ttl line (parse_flags line
       (parse_ports line (parse_length line (parse_protocol line (parse_ip line
         (fresh_packet now))))))))"

definition count_some :: "'a option \<Rightarrow> nat" where
  "count_some x = (case x of None \<Rightarrow> 0 | Some _ \<Rightarrow> 1)"

definition keys_count :: "PacketData \<Rightarrow> nat" where
  \<comment> \<open>\<^verbatim>\<open>Object.keys(packet).length\<close>: the timestamp and every field that was assigned\<close>
  "keys_count p = 1 + count_some (sourceIP p) + count_some (destIP p) + count_some (protocol p)
     + count_some (length_p p) + count_some (sourcePort p) + count_some (destPort p)
     + count_some (flags p) + count_some (ttl p) + count_some (window p)
     + count_some (checksum p)"

definition process_line :: "nat \<Rightarrow> string \<Rightarrow> PacketData option" where
  \<comment> \<open>one iteration of the loop: the packet event emitted for the line, if any\<close>
  "process_line now line =
     (if trim line = [] then None
      else let packet = scan_line now line
           in if keys_count packet > 1 then Some packet else None)"

fun process_lines :: "(nat \<Rightarrow> nat) \<Rightarrow> nat \<Rightarrow> string list \<Rightarrow> PacketData list" where
  \<comment> \<open>\<open>clock i\<close> is what \<^verbatim>\<open>Date.now()\<close> returns in iteration \<open>i\<close>\<close>
  "process_lines clock i [] = []"
| "process_lines clock i (line # rest) =
     (case process_line (clock i) line of
        None \<Rightarrow> process_lines clock (Suc i) rest
      | Some p \<Rightarrow> p # process_lines clock (Suc i) rest)"

definition processPacket :: "(nat \<Rightarrow> nat) \<Rightarrow> string \<Rightarrow> PacketData list" where
  \<comment> \<open>the packet events of one chunk of output, in the order of their emission\<close>
  "processPacket clock rawPacket = process_lines clock 0 (split_on CHR 0x0A rawPacket)"

text \<open>
  The capture session. \<^verbatim>\<open>exec\<close> is the process spawn of the host: it returns a process
  handle or throws, and is a parameter of the model.
\<close>

datatype tap_error = AlreadyCapturing | FailedToStart string

record NetworkTap =
  isCapturing :: bool
  tcpdumpProcess :: "nat option"

definition capture_command :: "string \<Rightarrow> string \<Rightarrow> string" where
  "capture_command interfaceName filter_s =
     (let filterStr = (if filter_s \<noteq> [] then ''-f \"'' @ filter_s @ ''\"'' else [])
      in ''tcpdump -i '' @ interfaceName @ '' -n -tttt '' @ filterStr)"

definition startCapture ::
  "(string \<Rightarrow> string + nat) \<Rightarrow> string \<Rightarrow> string \<Rightarrow> NetworkTap \<Rightarrow> (tap_error + unit) \<times> NetworkTap" where
  "startCapture exec interfaceName filter_s tap =
     (if isCapturing tap then (Inl AlreadyCapturing, tap)
      else (case exec (capture_command interfaceName filter_s) of
              Inl msg \<Rightarrow> (Inl (FailedToStart msg), tap)
            | Inr handle \<Rightarrow> (Inr (), tap\<lparr>tcpdumpProcess := Some handle, isCapturing := True\<rparr>)))"

definition stopCapture :: "NetworkTap \<Rightarrow> NetworkTap" where
  "stopCapture tap =
     (if \<not> isCapturing tap then tap
      else tap\<lparr>tcpdumpProcess := None, isCapturing := False\<rparr>)"

definition on_close :: "NetworkTap \<Rightarrow> NetworkTap" where
  \<comment> \<open>the \<^verbatim>\<open>close\<close> handler of the process\<close>
  "on_close tap = tap\<lparr>isCapturing := False\<rparr>"

section \<open>The feature extractor and the scorer: \<^verbatim>\<open>FeatureExtractor\<close>, \<^verbatim>\<open>AnomalyDetector\<close>\<close>

text \<open>
  A JavaScript number is \<open>NaN\<close> or a value; the values are taken in the reals, so the
  rounding of the divisions and sums of the extractor is not modelled. \<^verbatim>\<open>Number(s)\<close>
  and \<^verbatim>\<open>new Date(t).getHours()\<close> are functions of the host and parameters of the model.
  Reading a property of \<^verbatim>\<open>undefined\<close> throws a \<^verbatim>\<open>TypeError\<close>.
\<close>

datatype number = NaN | Num real

datatype js_error = TypeError

fun num_div :: "number \<Rightarrow> real \<Rightarrow> number" where
  "num_div NaN d = NaN"
| "num_div (Num x) d = Num (x / d)"

fun num_add :: "number \<Rightarrow> number \<Rightarrow> number" where
  "num_add (Num x) (Num y) = Num (x + y)"
| "num_add _ _ = NaN"

definition extractTimeFeatures :: "(nat \<Rightarrow> number) \<Rightarrow> nat \<Rightarrow> number" where
  "extractTimeFeatures getHours t = num_div (getHours t) 24"

definition extractIPFeatures :: "(string \<Rightarrow> number) \<Rightarrow> string option \<Rightarrow> js_error + number" where
  "extractIPFeatures toNumber ip =
     (case ip of
        None \<Rightarrow> Inl TypeError
      | Some a \<Rightarrow>
          (let octets = map toNumber (split_on CHR ''.'' a)
           in Inr (num_div (foldl num_add (Num 0) octets) 1020)))"

definition protocols :: "string list" where
  "protocols = [''TCP'', ''UDP'', ''ICMP'', ''HTTP'', ''HTTPS'']"

definition extractFeatures ::
  \<comment> \<open>\<^verbatim>\<open>FeatureExtractor.extract\<close>, which \<^verbatim>\<open>AnomalyDetector.extractFeatures\<close> returns unchanged\<close>
  "(string \<Rightarrow> number) \<Rightarrow> (nat \<Rightarrow> number) \<Rightarrow> PacketData \<Rightarrow> js_error + number list" where
  "extractFeatures toNumber getHours packet =
     (let features = [num_div (case length_p packet of None \<Rightarrow> NaN | Some n \<Rightarrow> Num (real n)) 1500];
          features = features @ map (\<lambda>p. if protocol packet = Some p then Num 1 else Num 0) protocols;
          features = features @ [extractTimeFeatures getHours (timestamp packet)]
      in case extractIPFeatures toNumber (sourceIP packet) of
           Inl e \<Rightarrow> Inl e
         | Inr src \<Rightarrow>
             (case extractIPFeatures toNumber (destIP packet) of
                Inl e \<Rightarrow> Inl e
              | Inr dst \<Rightarrow> Inr (features @ [src, dst])))"

text \<open>
  \<^verbatim>\<open>AnomalyDetector.train\<close> is asynchronous: \<open>train_begin\<close> is the part that runs when the
  call is made, up to the request to the scoring service, and \<open>train_settle\<close> the part
  that runs when the service answers (\<open>Inr\<close> the body of the answer, \<open>Inl\<close> the failure
  of the request) at time \<open>now\<close>.
\<close>

datatype train_error = TrainingInProgress | RequestFailed string

datatype detector_event = TrainingComplete string

record AnomalyDetector =
  isTraining :: bool
  lastTrainingTime :: nat
  emitted :: "detector_event list"

definition train_begin :: "AnomalyDetector \<Rightarrow> (train_error + unit) \<times> AnomalyDetector" where
  "train_begin d =
     (if isTraining d then (Inl TrainingInProgress, d)
      else (Inr (), d\<lparr>isTraining := True\<rparr>))"

definition train_settle ::
  "string + string \<Rightarrow> nat \<Rightarrow> AnomalyDetector \<Rightarrow> (train_error + unit) \<times> AnomalyDetector" where
  "train_settle response now d =
     (case response of
        Inr body \<Rightarrow>
          (Inr (), d\<lparr>lastTrainingTime := now,
                      emitted := emitted d @ [TrainingComplete body],
                      isTraining := False\<rparr>)
      | Inl msg \<Rightarrow> (Inl (RequestFailed msg), d\<lparr>isTraining := False\<rparr>))"

section \<open>The policy manager: \<^verbatim>\<open>RouterManager\<close>\<close>

text \<open>
  The state of a \<^verbatim>\<open>RouterManager\<close> is its fields together with what it has done to the
  outside: the events it emitted, the delays of the \<^verbatim>\<open>connect\<close> calls it scheduled with
  \<^verbatim>\<open>setTimeout\<close> and that have not run yet, the SET requests it sent to the device, and
  the policy document it wrote to storage. The policy store is a JavaScript \<^verbatim>\<open>Map\<close>: an
  association list in insertion order. The answers of the device and of the file system
  are parameters.
\<close>

datatype policy_type = Qos | Firewall | Bandwidth

datatype rule_action = Allow | Deny | Limit

record policy_rule =
  rule_sourceIP :: "string option"
  rule_destIP :: "string option"
  rule_protocol :: "string option"
  rule_port :: "int option"
  rule_action :: rule_action
  rule_limit :: "int option"

record NetworkPolicy =
  policy_id :: string
  policy_name :: string
  policy_type :: policy_type
  rules :: "policy_rule list"
  enabled :: bool

record RouterStats =
  cpu :: int
  memory :: int
  bandwidth_in :: int
  bandwidth_out :: int
  connections :: int
  errors :: int

datatype object_type = Integer | OctetString

datatype snmp_value = IntValue int | StringValue string

record varbind =
  oid :: string
  otype :: object_type
  ovalue :: snmp_value

datatype rm_error = NotConnected | SnmpError | FailedToGetStats | FailedToSave | FailedToApply

datatype rm_event = Connected | ErrorEvent | PolicyApplied NetworkPolicy | Disconnected

record RouterManager =
  session :: bool
  policies :: "(string \<times> NetworkPolicy) list"
  isConnected :: bool
  reconnectAttempts :: nat
  events :: "rm_event list"
  timers :: "nat list"
  writes :: "varbind list list"
  stored :: "(string \<times> NetworkPolicy) list"

definition maxReconnectAttempts :: nat where
  "maxReconnectAttempts = 5"

definition reconnectDelay :: nat where
  "reconnectDelay = 5000"

fun map_set :: "'k \<Rightarrow> 'v \<Rightarrow> ('k \<times> 'v) list \<Rightarrow> ('k \<times> 'v) list" where
  \<comment> \<open>\<^verbatim>\<open>Map.prototype.set\<close>: an existing key keeps its place\<close>
  "map_set k v [] = [(k, v)]"
| "map_set k v ((k', v') # m) = (if k' = k then (k, v) # m else (k', v') # map_set k v m)"

definition handleConnectionError :: "RouterManager \<Rightarrow> RouterManager" where
  "handleConnectionError s =
     (let s1 = s\<lparr>isConnected := False, reconnectAttempts := Suc (reconnectAttempts s)\<rparr>
      in if reconnectAttempts s1 \<le> maxReconnectAttempts
         then s1\<lparr>timers := timers s1 @ [reconnectDelay]\<rparr>
         else s1\<lparr>events := events s1 @ [ErrorEvent]\<rparr>)"

definition snmpGet :: "int list option \<Rightarrow> RouterManager \<Rightarrow> (rm_error + int list) \<times> RouterManager" where
  \<comment> \<open>\<open>answer\<close>: the values of the varbinds the device returns, or \<open>None\<close> for an error\<close>
  "snmpGet answer s =
     (if \<not> isConnected s then (Inl NotConnected, s)
      else (case answer of
              None \<Rightarrow> (Inl SnmpError, handleConnectionError s)
            | Some varbinds \<Rightarrow> (Inr varbinds, s)))"

definition snmpSet :: "bool \<Rightarrow> varbind list \<Rightarrow> RouterManager \<Rightarrow> (rm_error + unit) \<times> RouterManager" where
  \<comment> \<open>\<open>ok\<close>: whether the device accepts the request\<close>
  "snmpSet ok oids s =
     (if \<not> isConnected s then (Inl NotConnected, s)
      else (let s1 = s\<lparr>writes := writes s @ [oids]\<rparr>
            in if ok then (Inr (), s1) else (Inl SnmpError, handleConnectionError s1)))"

definition getStats :: "int list option \<Rightarrow> RouterManager \<Rightarrow> (rm_error + RouterStats) \<times> RouterManager" where
  \<comment> \<open>reading \<^verbatim>\<open>varbinds[i].value\<close> beyond the end of the answer throws, and is caught\<close>
  "getStats answer s =
     (case snmpGet answer s of
        (Inl e, s') \<Rightarrow> (Inl FailedToGetStats, s')
      | (Inr varbinds, s') \<Rightarrow>
          (if length varbinds < 6 then (Inl FailedToGetStats, s')
           else (Inr \<lparr>cpu = varbinds ! 0, memory = varbinds ! 1, bandwidth_in = varbinds ! 2,
                       bandwidth_out = varbinds ! 3, connections = varbinds ! 4,
                       errors = varbinds ! 5\<rparr>, s')))"

definition connect_succeeded :: "RouterManager \<Rightarrow> RouterManager" where
  \<comment> \<open>the statements of \<^verbatim>\<open>connect\<close> after the verification read\<close>
  "connect_succeeded s =
     s\<lparr>isConnected := True, reconnectAttempts := 0, events := events s @ [Connected]\<rparr>"

definition connect :: "int list option \<Rightarrow> RouterManager \<Rightarrow> RouterManager" where
  "connect answer s =
     (if isConnected s then s
      else (case getStats answer (s\<lparr>session := True\<rparr>) of
              (Inr stats, s') \<Rightarrow> connect_succeeded s'
            | (Inl e, s') \<Rightarrow> handleConnectionError s'))"

definition fire :: "int list option \<Rightarrow> RouterManager \<Rightarrow> RouterManager" where
  \<comment> \<open>the oldest pending timer expires: the \<^verbatim>\<open>connect\<close> call it scheduled runs\<close>
  "fire answer s =
     (case timers s of
        [] \<Rightarrow> s
      | delay # rest \<Rightarrow> connect answer (s\<lparr>timers := rest\<rparr>))"

fun retries :: "int list option list \<Rightarrow> RouterManager \<Rightarrow> RouterManager" where
  \<comment> \<open>the scheduled attempts, one for each answer of the device, as long as one is pending\<close>
  "retries [] s = s"
| "retries (answer # answers) s = retries answers (fire answer s)"

definition upper_char :: "char \<Rightarrow> char" where
  "upper_char c = (if c \<in> set ''abcdefghijklmnopqrstuvwxyz'' then char_of (of_char c - (32::nat)) else c)"

definition getProtocolNumber :: "string \<Rightarrow> int" where
  "getProtocolNumber p =
     (let u = map upper_char p
      in if u = ''TCP'' then 6 else if u = ''UDP'' then 17 else if u = ''ICMP'' then 1 else 0)"

fun getActionNumber :: "rule_action \<Rightarrow> int" where
  "getActionNumber Allow = 1"
| "getActionNumber Deny = 2"
| "getActionNumber Limit = 3"

definition string_oid :: "string \<Rightarrow> string option \<Rightarrow> varbind list" where
  \<comment> \<open>\<^verbatim>\<open>if (field) oids.push(...)\<close> for a string: an absent or empty field pushes nothing\<close>
  "string_oid name field =
     (case field of
        None \<Rightarrow> []
      | Some v \<Rightarrow> if v = [] then [] else [\<lparr>oid = name, otype = OctetString, ovalue = StringValue v\<rparr>])"

definition generatePolicyOids :: "policy_rule \<Rightarrow> varbind list" where
  "generatePolicyOids rule =
     string_oid ''1.3.6.1.2.1.4.20.1.1'' (rule_sourceIP rule)
     @ string_oid ''1.3.6.1.2.1.4.20.1.2'' (rule_destIP rule)
     @ (case rule_protocol rule of
          None \<Rightarrow> []
        | Some p \<Rightarrow> if p = [] then []
            else [\<lparr>oid = ''1.3.6.1.2.1.4.21.1.9'', otype = Integer,
                   ovalue = IntValue (getProtocolNumber p)\<rparr>])
     @ (case rule_port rule of
          None \<Rightarrow> []
        | Some n \<Rightarrow> if n = 0 then []
            else [\<lparr>oid = ''1.3.6.1.2.1.6.13.1.3'', otype = Integer, ovalue = IntValue n\<rparr>])
     @ [\<lparr>oid = ''1.3.6.1.2.1.4.21.1.13'', otype = Integer,
         ovalue = IntValue (getActionNumber (rule_action rule))\<rparr>]"

fun apply_rules ::
  "(nat \<Rightarrow> bool) \<Rightarrow> nat \<Rightarrow> policy_rule list \<Rightarrow> RouterManager \<Rightarrow> (rm_error + unit) \<times> RouterManager" where
  \<comment> \<open>the loop of \<^verbatim>\<open>applyPolicy\<close>; \<open>device i\<close>: whether the device accepts the request of rule \<open>i\<close>\<close>
  "apply_rules device i [] s = (Inr (), s)"
| "apply_rules device i (rule # rest) s =
     (case snmpSet (device i) (generatePolicyOids rule) s of
        (Inl e, s') \<Rightarrow> (Inl e, s')
      | (Inr u, s') \<Rightarrow> apply_rules device (Suc i) rest s')"

definition savePolicies :: "bool \<Rightarrow> RouterManager \<Rightarrow> (rm_error + unit) \<times> RouterManager" where
  \<comment> \<open>\<open>fs_ok\<close>: whether \<^verbatim>\<open>writeFileSync\<close> returns\<close>
  "savePolicies fs_ok s =
     (if fs_ok then (Inr (), s\<lparr>stored := policies s\<rparr>) else (Inl FailedToSave, s))"

definition applyPolicy ::
  "(nat \<Rightarrow> bool) \<Rightarrow> bool \<Rightarrow> NetworkPolicy \<Rightarrow> RouterManager \<Rightarrow> (rm_error + unit) \<times> RouterManager" where
  "applyPolicy device fs_ok policy s =
     (if \<not> isConnected s then (Inl FailedToApply, s)
      else (case apply_rules device 0 (rules policy) s of
              (Inl e, s') \<Rightarrow> (Inl FailedToApply, s')
            | (Inr u, s') \<Rightarrow>
                (case savePolicies fs_ok (s'\<lparr>policies := map_set (policy_id policy) policy (policies s')\<rparr>) of
                   (Inl e, s'') \<Rightarrow> (Inl FailedToApply, s'')
                 | (Inr u, s'') \<Rightarrow> (Inr (), s''\<lparr>events := events s'' @ [PolicyApplied policy]\<rparr>))))"

definition disconnect :: "RouterManager \<Rightarrow> RouterManager" where
  "disconnect s =
     (if session s then s\<lparr>isConnected := False, events := events s @ [Disconnected]\<rparr> else s)"

section \<open>The orchestrator: \<^verbatim>\<open>NetworkOrchestrator\<close>\<close>

text \<open>
  The literals \<^verbatim>\<open>0.8\<close> and \<^verbatim>\<open>0.9\<close> of the source are the doubles nearest to these
  fractions; a confidence is a double too, and the comparisons of doubles are those of
  their values.

  The orchestrator calls the policy manager through \<^verbatim>\<open>blockIP\<close> and
  \<^verbatim>\<open>setBandwidthLimit\<close>, which \<^verbatim>\<open>RouterManager\<close> does not define: the outcome of these two
  calls is a parameter of the model, and every call made is recorded.
\<close>

definition lit_0_8 :: real where
  "lit_0_8 = 7205759403792794 / 2 ^ 53"

definition lit_0_9 :: real where
  "lit_0_9 = 8106479329266893 / 2 ^ 53"

record ScoreResult =
  isAnomaly :: bool
  confidence :: real
  score_type :: string
  details :: string

record anomaly =
  anomaly_packet :: PacketData
  anomaly_features :: "number list"
  anomaly_confidence :: real

datatype rm_call = BlockIP "string option" | SetBandwidthLimit "string option" nat

datatype orch_event = AnomalyEvent anomaly RouterStats

record NetworkOrchestrator =
  routerManager :: RouterManager
  anomalyThreshold :: real
  calls :: "rm_call list"
  orch_events :: "orch_event list"

definition default_threshold :: "real option \<Rightarrow> real" where
  \<comment> \<open>\<^verbatim>\<open>config.anomalyThreshold || 0.8\<close>\<close>
  "default_threshold t = (case t of None \<Rightarrow> lit_0_8 | Some v \<Rightarrow> if v = 0 then lit_0_8 else v)"

definition call_manager ::
  "(rm_call \<Rightarrow> bool) \<Rightarrow> rm_call \<Rightarrow> NetworkOrchestrator \<Rightarrow> (js_error + unit) \<times> NetworkOrchestrator" where
  \<comment> \<open>\<open>outcome c\<close>: whether the call \<open>c\<close> on the policy manager returns\<close>
  "call_manager outcome c orch =
     (let orch1 = orch\<lparr>calls := calls orch @ [c]\<rparr>
      in if outcome c then (Inr (), orch1) else (Inl TypeError, orch1))"

definition emit_anomaly :: "anomaly \<Rightarrow> RouterStats \<Rightarrow> NetworkOrchestrator \<Rightarrow> NetworkOrchestrator" where
  "emit_anomaly a stats orch = orch\<lparr>orch_events := orch_events orch @ [AnomalyEvent a stats]\<rparr>"

definition handleAnomaly ::
  "int list option \<Rightarrow> (rm_call \<Rightarrow> bool) \<Rightarrow> anomaly \<Rightarrow> NetworkOrchestrator \<Rightarrow> NetworkOrchestrator" where
  "handleAnomaly answer outcome a orch =
     (case getStats answer (routerManager orch) of
        (Inl e, rm) \<Rightarrow> orch\<lparr>routerManager := rm\<rparr>
      | (Inr stats, rm) \<Rightarrow>
          (let orch1 = orch\<lparr>routerManager := rm\<rparr>
           in if anomaly_confidence a > lit_0_9
              then (case call_manager outcome (BlockIP (sourceIP (anomaly_packet a))) orch1 of
                      (Inl e, orch2) \<Rightarrow> orch2
                    | (Inr u, orch2) \<Rightarrow> emit_anomaly a stats orch2)
              else if anomaly_confidence a > lit_0_8
              then (case call_manager outcome (SetBandwidthLimit (sourceIP (anomaly_packet a)) 1) orch1 of
                      (Inl e, orch2) \<Rightarrow> orch2
                    | (Inr u, orch2) \<Rightarrow> emit_anomaly a stats orch2)
              else emit_anomaly a stats orch1))"

text \<open>
  \<^verbatim>\<open>AnomalyDetector.detectAnomaly\<close> first runs \<^verbatim>\<open>FeatureExtractor.extract\<close> on its argument,
  outside its \<^verbatim>\<open>try\<close>, and then posts the features to the scoring service, whose answer
  (\<open>Inr\<close> the body, \<open>Inl\<close> the failure of the request) is the parameter \<open>service\<close>. Its
  parameter is declared a packet, and \<^verbatim>\<open>handlePacket\<close> passes it the feature vector it
  has just extracted. Read as a packet, an array has a \<^verbatim>\<open>length\<close>, its number of
  elements, and no \<^verbatim>\<open>protocol\<close>, \<^verbatim>\<open>timestamp\<close>, \<^verbatim>\<open>sourceIP\<close> or \<^verbatim>\<open>destIP\<close>; the hour of
  an undefined time is \<open>NaN\<close>.
\<close>

datatype scorer_arg = Packet PacketData | Features "number list"

datatype detect_error = Thrown js_error | ServiceCallError string

definition extract_arg ::
  "(string \<Rightarrow> number) \<Rightarrow> (nat \<Rightarrow> number) \<Rightarrow> scorer_arg \<Rightarrow> js_error + number list" where
  \<comment> \<open>\<^verbatim>\<open>FeatureExtractor.extract\<close> on either kind of argument\<close>
  "extract_arg toNumber getHours arg =
     (case arg of
        Packet packet \<Rightarrow> extractFeatures toNumber getHours packet
      | Features xs \<Rightarrow>
          (let features = [num_div (Num (real (length xs))) 1500];
               features = features @ map (\<lambda>p. Num 0) protocols;
               features = features @ [num_div NaN 24]
           in case extractIPFeatures toNumber None of
                Inl e \<Rightarrow> Inl e
              | Inr src \<Rightarrow>
                  (case extractIPFeatures toNumber None of
                     Inl e \<Rightarrow> Inl e
                   | Inr dst \<Rightarrow> Inr (features @ [src, dst]))))"

definition detectAnomaly ::
  "(string \<Rightarrow> number) \<Rightarrow> (nat \<Rightarrow> number) \<Rightarrow> (number list \<Rightarrow> string + ScoreResult)
     \<Rightarrow> scorer_arg \<Rightarrow> detect_error + ScoreResult" where
  "detectAnomaly toNumber getHours service arg =
     (case extract_arg toNumber getHours arg of
        Inl e \<Rightarrow> Inl (Thrown e)
      | Inr features \<Rightarrow>
          (case service features of
             Inl msg \<Rightarrow> Inl (ServiceCallError msg)
           | Inr result \<Rightarrow> Inr result))"

definition handlePacket ::
  "(string \<Rightarrow> number) \<Rightarrow> (nat \<Rightarrow> number) \<Rightarrow> (number list \<Rightarrow> string + ScoreResult)
     \<Rightarrow> int list option \<Rightarrow> (rm_call \<Rightarrow> bool) \<Rightarrow> PacketData \<Rightarrow> NetworkOrchestrator
     \<Rightarrow> NetworkOrchestrator" where
  "handlePacket toNumber getHours service answer outcome packet orch =
     (case extractFeatures toNumber getHours packet of
        Inl e \<Rightarrow> orch
      | Inr features \<Rightarrow>
          (case detectAnomaly toNumber getHours service (Features features) of
             Inl e \<Rightarrow> orch
           | Inr result \<Rightarrow>
               if isAnomaly result \<and> confidence result \<ge> anomalyThreshold orch
               then handleAnomaly answer outcome
                      \<lparr>anomaly_packet = packet, anomaly_features = features,
                       anomaly_confidence = confidence result\<rparr> orch
               else orch))"

section \<open>Predicates of the statements\<close>

text \<open>
  An item that cannot match inside a run of white space: a pattern with such an item
  does not match a blank line.
\<close>

fun cls_nonspace :: "cls \<Rightarrow> bool" where
  "cls_nonspace Digit = True"
| "cls_nonspace Space = False"
| "cls_nonspace (Lit l) = (\<not> isSpace l)"
| "cls_nonspace NotRBracket = False"

fun needs_nonspace :: "item \<Rightarrow> bool" where
  "needs_nonspace (One c) = cls_nonspace c"
| "needs_nonspace (Plus c) = cls_nonspace c"
| "needs_nonspace (Star c) = False"
| "needs_nonspace (Alt ws) = list_all (\<lambda>w. list_ex (\<lambda>c. \<not> isSpace c) w) ws"


text \<open>No expression of the parser matches the line; some field besides the timestamp is set.\<close>

definition no_token :: "string \<Rightarrow> bool" where
  "no_token line = (search ip_re line = None \<and> search protocol_re line = None
     \<and> search length_re line = None \<and> search port_re line = None
     \<and> search flags_re line = None \<and> search ttl_re line = None
     \<and> search window_re line = None \<and> search checksum_re line = None)"

definition has_field :: "PacketData \<Rightarrow> bool" where
  "has_field p = (sourceIP p \<noteq> None \<or> destIP p \<noteq> None \<or> protocol p \<noteq> None
     \<or> length_p p \<noteq> None \<or> sourcePort p \<noteq> None \<or> destPort p \<noteq> None \<or> flags p \<noteq> None
     \<or> ttl p \<noteq> None \<or> window p \<noteq> None \<or> checksum p \<noteq> None)"


definition new_manager :: RouterManager where
  \<comment> \<open>a manager after its constructor, with no policy document on disk\<close>
  "new_manager = \<lparr>session = False, policies = [], isConnected = False, reconnectAttempts = 0,
     events = [], timers = [], writes = [], stored = []\<rparr>"

text \<open>A policy of two rules.\<close>

definition rule1 :: policy_rule where
  "rule1 = \<lparr>rule_sourceIP = Some ''10.0.0.5'', rule_destIP = None, rule_protocol = Some ''tcp'',
     rule_port = Some 22, rule_action = Deny, rule_limit = None\<rparr>"

definition rule2 :: policy_rule where
  "rule2 = \<lparr>rule_sourceIP = None, rule_destIP = Some ''10.0.0.9'', rule_protocol = None,
     rule_port = None, rule_action = Limit, rule_limit = Some 1\<rparr>"

definition policy1 :: NetworkPolicy where
  "policy1 = \<lparr>policy_id = ''p1'', policy_name = ''block'', policy_type = Firewall,
     rules = [rule1, rule2], enabled = True\<rparr>"

text \<open>Two packets with both addresses, a connected orchestrator with the default threshold,
  and a score at the threshold.\<close>

definition packet1 :: PacketData where
  "packet1 = \<lparr>timestamp = 0, sourceIP = Some ''10.0.0.5'', destIP = Some ''10.0.0.9'',
     protocol = Some ''TCP'', length_p = Some 1500, sourcePort = Some 4000, destPort = Some 80,
     flags = Some ''S'', ttl = None, window = None, checksum = None\<rparr>"

definition packet2 :: PacketData where
  "packet2 = \<lparr>timestamp = 86399000, sourceIP = Some ''192.168.1.10'', destIP = Some ''8.8.8.8'',
     protocol = None, length_p = None, sourcePort = None, destPort = None,
     flags = None, ttl = None, window = None, checksum = None\<rparr>"

definition connected_orchestrator :: NetworkOrchestrator where
  "connected_orchestrator = \<lparr>routerManager = new_manager\<lparr>session := True, isConnected := True\<rparr>,
     anomalyThreshold = default_threshold None, calls = [], orch_events = []\<rparr>"

definition score_0_8 :: ScoreResult where
  "score_0_8 = \<lparr>isAnomaly = True, confidence = lit_0_8, score_type = ''anomaly'', details = []\<rparr>"

section \<open>The line parser\<close>

lemma digit_not_space: "isDigit c \<Longrightarrow> \<not> isSpace c"
  by (auto simp: isDigit_def isSpace_def)

lemma cls_nonspaceD: "cls_nonspace c \<Longrightarrow> in_cls c x \<Longrightarrow> \<not> isSpace x"
  by (cases c) (auto simp: digit_not_space)

lemma takeWhile_hd: "takeWhile P s \<noteq> [] \<Longrightarrow> \<exists>x xs. s = x # xs \<and> P x"
  by (cases s) (auto split: if_splits)

lemma candidates_nonspace:
  "needs_nonspace i \<Longrightarrow> k \<in> set (candidates i s) \<Longrightarrow> \<exists>c\<in>set s. \<not> isSpace c"
proof (cases i)
  case (One c)
  assume "needs_nonspace i" "k \<in> set (candidates i s)"
  with One show ?thesis
    by (cases s) (auto split: if_splits dest: cls_nonspaceD)
next
  case (Plus c)
  assume a: "needs_nonspace i" "k \<in> set (candidates i s)"
  with Plus have "takeWhile (in_cls c) s \<noteq> []" by auto
  then obtain x xs where "s = x # xs" "in_cls c x" using takeWhile_hd by metis
  with a Plus show ?thesis by (auto dest: cls_nonspaceD)
next
  case (Star c)
  assume "needs_nonspace i"
  with Star show ?thesis by simp
next
  case (Alt ws)
  assume a: "needs_nonspace i" "k \<in> set (candidates i s)"
  with Alt obtain w where w: "w \<in> set ws" "take (length w) s = w" by auto
  with a Alt obtain c where c: "c \<in> set w" "\<not> isSpace c"
    by (auto simp: list_all_iff list_ex_iff)
  from w c have "c \<in> set s" by (metis in_set_takeD)
  with c show ?thesis by blast
qed

lemma first_some_SomeD: "first_some f ks = Some r \<Longrightarrow> \<exists>k\<in>set ks. f k = Some r"
  by (induction ks) (auto split: option.splits)

lemma first_some_None: "first_some f ks = None \<longleftrightarrow> (\<forall>k\<in>set ks. f k = None)"
  by (induction ks) (auto split: option.splits)

lemma match_items_nonspace:
  "match_items its s = Some segs \<Longrightarrow> \<exists>i\<in>set its. needs_nonspace i \<Longrightarrow> \<exists>c\<in>set s. \<not> isSpace c"
proof (induction its arbitrary: s segs)
  case Nil
  then show ?case by simp
next
  case (Cons i its)
  from Cons.prems(1) obtain k where k: "k \<in> set (candidates i s)"
    and m: "map_option (Cons (take k s)) (match_items its (drop k s)) = Some segs"
    by (auto dest: first_some_SomeD)
  from m obtain segs' where segs': "match_items its (drop k s) = Some segs'" by auto
  show ?case
  proof (cases "needs_nonspace i")
    case True
    then show ?thesis using k by (rule candidates_nonspace)
  next
    case False
    with Cons.prems(2) have "\<exists>i\<in>set its. needs_nonspace i" by auto
    with Cons.IH[OF segs'] obtain c where "c \<in> set (drop k s)" "\<not> isSpace c" by blast
    then show ?thesis by (meson in_set_dropD)
  qed
qed

lemma search_nonspace:
  "search its s = Some segs \<Longrightarrow> \<exists>i\<in>set its. needs_nonspace i \<Longrightarrow> \<exists>c\<in>set s. \<not> isSpace c"
proof (induction s)
  case Nil
  then show ?case by (auto dest: match_items_nonspace)
next
  case (Cons x xs)
  show ?case
  proof (cases "match_items its (x # xs)")
    case None
    with Cons show ?thesis by auto
  next
    case (Some r)
    with Cons.prems(1) have "match_items its (x # xs) = Some segs" by simp
    then show ?thesis using Cons.prems(2) by (rule match_items_nonspace)
  qed
qed

lemma blank_search: "list_all isSpace s \<Longrightarrow> \<exists>i\<in>set its. needs_nonspace i \<Longrightarrow> search its s = None"
  using search_nonspace[of its s] by (cases "search its s") (auto simp: list_all_iff)

lemma dropWhile_all: "dropWhile P xs = [] \<longleftrightarrow> list_all P xs"
  by (induction xs) auto

lemma dropWhile_twice: "list_all P (dropWhile P xs) \<Longrightarrow> list_all P xs"
  by (induction xs) (auto split: if_splits)

lemma trim_blank: "trim s = [] \<longleftrightarrow> list_all isSpace s"
proof
  assume "trim s = []"
  then have "dropWhile isSpace (rev (dropWhile isSpace s)) = []" by (simp add: trim_def)
  then have "list_all isSpace (rev (dropWhile isSpace s))" by (simp only: dropWhile_all)
  then have "list_all isSpace (dropWhile isSpace s)" by (simp only: list_all_rev)
  then show "list_all isSpace s" by (rule dropWhile_twice)
next
  assume "list_all isSpace s"
  then have h: "dropWhile isSpace s = []" by (simp only: dropWhile_all)
  show "trim s = []" unfolding trim_def h by simp
qed

lemma re_nonspace:
  "\<exists>i\<in>set ip_re. needs_nonspace i" "\<exists>i\<in>set protocol_re. needs_nonspace i"
  "\<exists>i\<in>set length_re. needs_nonspace i" "\<exists>i\<in>set port_re. needs_nonspace i"
  "\<exists>i\<in>set flags_re. needs_nonspace i" "\<exists>i\<in>set ttl_re. needs_nonspace i"
  "\<exists>i\<in>set window_re. needs_nonspace i" "\<exists>i\<in>set checksum_re. needs_nonspace i"
  by (simp_all add: ip_re_def protocol_re_def length_re_def port_re_def flags_re_def ttl_re_def
      window_re_def checksum_re_def dotted4_def dotted2_def arrow_def lits_def isSpace_def)

lemma blank_no_token: "trim line = [] \<Longrightarrow> no_token line"
  by (simp add: no_token_def trim_blank blank_search re_nonspace)

lemmas parse_defs = parse_ip_def parse_protocol_def parse_length_def parse_ports_def
  parse_flags_def parse_ttl_def parse_window_def parse_checksum_def

lemma scan_line_no_token: "no_token line \<Longrightarrow> scan_line now line = fresh_packet now"
  by (simp add: no_token_def scan_line_def parse_defs)

lemma scan_line_fields: "has_field (scan_line now line) \<longleftrightarrow> \<not> no_token line"
  by (auto simp: has_field_def no_token_def scan_line_def parse_defs fresh_packet_def split: option.splits)

lemma keys_count_has_field: "Suc 0 < keys_count p \<longleftrightarrow> has_field p"
  by (auto simp: keys_count_def has_field_def count_some_def split: option.splits)


lemma process_line_eq:
  "process_line now line = (if no_token line then None else Some (scan_line now line))"
  using blank_no_token[of line] scan_line_fields[of now line]
  by (auto simp: process_line_def Let_def keys_count_has_field)

text \<open>
  C3. The capture line of the scenario, as one chunk of output. The parser emits exactly
  one record: no protocol, length 1500 and flags \<open>S\<close>; but the address expression first
  matches at the third octet, so that the source address is \<open>0.0.5.4000\<close>, and the port
  expression stops after the first octet of the destination, so that the destination
  port is 0 (the source port is 4000).
\<close>

theorem C3_scenario_line:
  "processPacket clock ''10.0.0.5.4000 > 10.0.0.9.80: Flags [S], length 1500'' =
     [\<lparr>timestamp = clock 0, sourceIP = Some ''0.0.5.4000'', destIP = Some ''10.0.0.9'',
       protocol = None, length_p = Some 1500, sourcePort = Some 4000, destPort = Some 0,
       flags = Some ''S'', ttl = None, window = None, checksum = None\<rparr>]"
  by code_simp

text \<open>
  C4. For every line, a record is emitted if and only if the scan of the line set a field
  besides the timestamp, and the record emitted is the one the scan built; a line that
  none of the eight expressions matches emits nothing. (A blank line is skipped before
  the scan, and its scan would set no field.)
\<close>

theorem C4_emitted_iff_field_parsed:
  "(process_line now line = Some p \<longleftrightarrow> has_field (scan_line now line) \<and> p = scan_line now line)
   \<and> (no_token line \<longrightarrow> process_line now line = None)"
  by (auto simp: process_line_eq scan_line_fields)

theorem C4_witness:
  "no_token ''listening on eth0'' \<and> process_line 0 ''listening on eth0'' = None
   \<and> has_field (scan_line 0 ''win 512'') \<and> process_line 0 ''win 512'' = Some (scan_line 0 ''win 512'')"
proof -
  have n: "no_token ''listening on eth0''" by code_simp
  have h: "has_field (scan_line 0 ''win 512'')" by code_simp
  show ?thesis
    using n h C4_emitted_iff_field_parsed[of 0 "''listening on eth0''"]
      C4_emitted_iff_field_parsed[of 0 "''win 512''" "scan_line 0 ''win 512''"]
    by simp
qed

text \<open>
  C5, against the claim: the line \<open>1.2 > 3.4\<close> has no address pair, and the record emitted
  for it has both port fields.
\<close>

theorem C5_counterexample:
  "search ip_re ''1.2 > 3.4'' = None
   \<and> process_line 0 ''1.2 > 3.4'' =
       Some \<lparr>timestamp = 0, sourceIP = None, destIP = None, protocol = None, length_p = None,
         sourcePort = Some 2, destPort = Some 4, flags = None, ttl = None, window = None,
         checksum = None\<rparr>"
  by code_simp

text \<open>
  C5, amended. The port fields depend on the port-pair expression alone: whenever it
  matches the line, a record is emitted and carries both ports, taken from the second
  and the fourth group, whether or not an address pair was found; and an emitted record
  has a port field only if the expression matched.
\<close>

theorem C5_ports_follow_port_pair:
  "(search port_re line = Some m \<longrightarrow>
      (\<exists>p. process_line now line = Some p
         \<and> sourcePort p = Some (parseInt (grp m 2 3))
         \<and> destPort p = Some (parseInt (grp m 8 9))))
   \<and> (process_line now line = Some p \<and> (sourcePort p \<noteq> None \<or> destPort p \<noteq> None)
        \<longrightarrow> search port_re line \<noteq> None)"
proof -
  have ports: "sourcePort (scan_line now line) = map_option (\<lambda>m. parseInt (grp m 2 3)) (search port_re line)"
    "destPort (scan_line now line) = map_option (\<lambda>m. parseInt (grp m 8 9)) (search port_re line)"
    by (simp_all add: scan_line_def parse_defs fresh_packet_def split: option.splits)
  have token: "\<not> no_token line" if "search port_re line \<noteq> None"
    using that by (simp add: no_token_def)
  show ?thesis
  proof (cases "search port_re line")
    case None
    then show ?thesis by (auto simp: process_line_eq ports split: if_splits)
  next
    case (Some r)
    with token have "\<not> no_token line" by simp
    with Some show ?thesis by (simp add: process_line_eq ports)
  qed
qed

theorem C5_witness:
  "search port_re ''80.1 > 443.2'' = Some [''80'', ''.'', ''1'', '' '', ''>'', '' '', ''443'', ''.'', ''2'']
   \<and> (\<exists>p. process_line 0 ''80.1 > 443.2'' = Some p \<and> sourcePort p = Some 1 \<and> destPort p = Some 2)
   \<and> process_line 0 ''1.2.3.4 > 5.6.7.8'' =
       Some ((fresh_packet 0)\<lparr>sourceIP := Some ''1.2.3.4'', destIP := Some ''5.6.7.8'',
          sourcePort := Some 4, destPort := Some 6\<rparr>)
   \<and> search port_re ''1.2.3.4 > 5.6.7.8'' \<noteq> None"
proof -
  have m: "search port_re ''80.1 > 443.2'' = Some [''80'', ''.'', ''1'', '' '', ''>'', '' '', ''443'', ''.'', ''2'']"
    by code_simp
  have g: "parseInt (grp [''80'', ''.'', ''1'', '' '', ''>'', '' '', ''443'', ''.'', ''2''] 2 3) = 1"
    "parseInt (grp [''80'', ''.'', ''1'', '' '', ''>'', '' '', ''443'', ''.'', ''2''] 8 9) = 2"
    by code_simp+
  have e: "process_line 0 ''1.2.3.4 > 5.6.7.8'' =
       Some ((fresh_packet 0)\<lparr>sourceIP := Some ''1.2.3.4'', destIP := Some ''5.6.7.8'',
          sourcePort := Some 4, destPort := Some 6\<rparr>)"
    by code_simp
  show ?thesis
    using m g e C5_ports_follow_port_pair[of "''80.1 > 443.2''"
        "[''80'', ''.'', ''1'', '' '', ''>'', '' '', ''443'', ''.'', ''2'']" 0]
      C5_ports_follow_port_pair[of "''1.2.3.4 > 5.6.7.8''" "[]" 0
        "(fresh_packet 0)\<lparr>sourceIP := Some ''1.2.3.4'', destIP := Some ''5.6.7.8'',
          sourcePort := Some 4, destPort := Some 6\<rparr>"]
    by simp
qed

section \<open>The capture session\<close>

text \<open>
  C8. When a capture is running, \<^verbatim>\<open>startCapture\<close> fails with \<open>AlreadyCapturing\<close> and returns
  the session as it was: still running, with the same process handle. In particular the
  call that follows a successful \<^verbatim>\<open>startCapture\<close>, with no \<^verbatim>\<open>stopCapture\<close> between them,
  fails so, whatever its arguments and whatever the spawn would have answered.
\<close>

theorem C8_second_start_fails:
  "(isCapturing tap \<longrightarrow> startCapture exec interfaceName filter_s tap = (Inl AlreadyCapturing, tap))
   \<and> (startCapture exec interfaceName filter_s tap = (Inr (), tap') \<longrightarrow>
        isCapturing tap' \<and> startCapture exec2 interfaceName2 filter2 tap' = (Inl AlreadyCapturing, tap'))"
  by (auto simp: startCapture_def split: if_splits sum.splits)

theorem C8_witness:
  "startCapture (\<lambda>c. Inr 7) ''eth0'' [] \<lparr>isCapturing = False, tcpdumpProcess = None\<rparr>
     = (Inr (), \<lparr>isCapturing = True, tcpdumpProcess = Some 7\<rparr>)
   \<and> startCapture (\<lambda>c. Inr 8) ''eth1'' ''tcp'' \<lparr>isCapturing = True, tcpdumpProcess = Some 7\<rparr>
     = (Inl AlreadyCapturing, \<lparr>isCapturing = True, tcpdumpProcess = Some 7\<rparr>)"
proof -
  have first: "startCapture (\<lambda>c. Inr 7) ''eth0'' [] \<lparr>isCapturing = False, tcpdumpProcess = None\<rparr>
     = (Inr (), \<lparr>isCapturing = True, tcpdumpProcess = Some 7\<rparr>)"
    by (simp add: startCapture_def)
  show ?thesis
    using first C8_second_start_fails[of "\<lparr>isCapturing = False, tcpdumpProcess = None\<rparr>"
        "\<lambda>c. Inr 7" "''eth0''" "[]" "\<lparr>isCapturing = True, tcpdumpProcess = Some 7\<rparr>"
        "\<lambda>c. Inr 8" "''eth1''" "''tcp''"]
    by simp
qed

section \<open>Retraining\<close>

text \<open>
  C7. While a \<^verbatim>\<open>train\<close> call is in flight (\<open>isTraining\<close> holds, as it does after the first
  part of a call that was accepted), another call fails at once with
  \<open>TrainingInProgress\<close> and leaves the scorer as it was, so that it records no
  last-trained time and the call in flight settles exactly as it would have without it.
  A call whose request fails returns the error, emits nothing and records no time; a
  call whose request succeeds records the time of the answer and emits one
  \<open>TrainingComplete\<close> event with the body of the answer.
\<close>

theorem C7_single_flight_train:
  "(isTraining d \<longrightarrow>
      train_begin d = (Inl TrainingInProgress, d)
      \<and> train_settle response now (snd (train_begin d)) = train_settle response now d)
   \<and> (train_begin d0 = (Inr (), d1) \<longrightarrow> isTraining d1 \<and> train_begin d1 = (Inl TrainingInProgress, d1))
   \<and> (fst (train_settle (Inl msg) now d) = Inl (RequestFailed msg)
        \<and> emitted (snd (train_settle (Inl msg) now d)) = emitted d
        \<and> lastTrainingTime (snd (train_settle (Inl msg) now d)) = lastTrainingTime d)
   \<and> (fst (train_settle (Inr body) now d) = Inr ()
        \<and> emitted (snd (train_settle (Inr body) now d)) = emitted d @ [TrainingComplete body]
        \<and> lastTrainingTime (snd (train_settle (Inr body) now d)) = now)"
  by (auto simp: train_begin_def train_settle_def split: if_splits)

theorem C7_witness:
  "train_begin \<lparr>isTraining = False, lastTrainingTime = 0, emitted = []\<rparr>
     = (Inr (), \<lparr>isTraining = True, lastTrainingTime = 0, emitted = []\<rparr>)
   \<and> train_begin \<lparr>isTraining = True, lastTrainingTime = 0, emitted = []\<rparr>
     = (Inl TrainingInProgress, \<lparr>isTraining = True, lastTrainingTime = 0, emitted = []\<rparr>)
   \<and> train_settle (Inr ''{}'') 42 \<lparr>isTraining = True, lastTrainingTime = 0, emitted = []\<rparr>
     = (Inr (), \<lparr>isTraining = False, lastTrainingTime = 42, emitted = [TrainingComplete ''{}'']\<rparr>)"
proof -
  have first: "train_begin \<lparr>isTraining = False, lastTrainingTime = 0, emitted = []\<rparr>
     = (Inr (), \<lparr>isTraining = True, lastTrainingTime = 0, emitted = []\<rparr>)"
    by (simp add: train_begin_def)
  have last: "train_settle (Inr ''{}'') 42 \<lparr>isTraining = True, lastTrainingTime = 0, emitted = []\<rparr>
     = (Inr (), \<lparr>isTraining = False, lastTrainingTime = 42, emitted = [TrainingComplete ''{}'']\<rparr>)"
    by (simp add: train_settle_def)
  show ?thesis
    using first last C7_single_flight_train[of "\<lparr>isTraining = True, lastTrainingTime = 0, emitted = []\<rparr>"
        "Inr ''{}''" 42 "\<lparr>isTraining = False, lastTrainingTime = 0, emitted = []\<rparr>"
        "\<lparr>isTraining = True, lastTrainingTime = 0, emitted = []\<rparr>"]
    by simp
qed

section \<open>Applying a policy\<close>

lemma snmpSet_ok:
  "isConnected s \<Longrightarrow> snmpSet True oids s = (Inr (), s\<lparr>writes := writes s @ [oids]\<rparr>)"
  by (simp add: snmpSet_def)

lemma snmpSet_fail:
  "isConnected s \<Longrightarrow>
   snmpSet False oids s = (Inl SnmpError, handleConnectionError (s\<lparr>writes := writes s @ [oids]\<rparr>))"
  by (simp add: snmpSet_def)

lemma apply_rules_all_ok:
  "isConnected s \<Longrightarrow> \<forall>j<length rs. device (i + j) \<Longrightarrow>
   apply_rules device i rs s = (Inr (), s\<lparr>writes := writes s @ map generatePolicyOids rs\<rparr>)"
proof (induction rs arbitrary: i s)
  case Nil
  then show ?case by simp
next
  case (Cons r rs)
  from Cons.prems(2) have d0: "device i" by force
  from Cons.prems(2) have rest: "\<forall>j<length rs. device (Suc i + j)" by force
  have c: "isConnected (s\<lparr>writes := writes s @ [generatePolicyOids r]\<rparr>)"
    using Cons.prems(1) by simp
  show ?case
    using Cons.IH[OF c rest] d0 Cons.prems(1) by (simp add: snmpSet_ok)
qed

lemma apply_rules_first_failure:
  "isConnected s \<Longrightarrow> k < length rs \<Longrightarrow> \<forall>j<k. device (i + j) \<Longrightarrow> \<not> device (i + k) \<Longrightarrow>
   apply_rules device i rs s =
     (Inl SnmpError,
      handleConnectionError (s\<lparr>writes := writes s @ map generatePolicyOids (take (Suc k) rs)\<rparr>))"
proof (induction rs arbitrary: i s k)
  case Nil
  then show ?case by simp
next
  case (Cons r rs)
  show ?case
  proof (cases k)
    case 0
    with Cons.prems show ?thesis by (simp add: snmpSet_fail)
  next
    case (Suc k')
    from Cons.prems(3) Suc have d0: "device i" by force
    from Cons.prems(3) Suc have rest: "\<forall>j<k'. device (Suc i + j)" by force
    from Cons.prems(4) Suc have bad: "\<not> device (Suc i + k')" by simp
    from Cons.prems(2) Suc have len: "k' < length rs" by simp
    have c: "isConnected (s\<lparr>writes := writes s @ [generatePolicyOids r]\<rparr>)"
      using Cons.prems(1) by simp
    show ?thesis
      using Cons.IH[OF c len rest bad] d0 Cons.prems(1) Suc by (simp add: snmpSet_ok)
  qed
qed

lemma first_failure_exists:
  "\<not> (\<forall>j<n::nat. device j) \<Longrightarrow> \<exists>k<n. (\<forall>j<k. device j) \<and> \<not> device k"
proof -
  assume "\<not> (\<forall>j<n::nat. device j)"
  then obtain j where j: "j < n" "\<not> device j" by blast
  define k where "k = (LEAST j. \<not> device j)"
  have nk: "\<not> device k" unfolding k_def by (rule LeastI[where P="\<lambda>j. \<not> device j", OF j(2)])
  have "k \<le> j" unfolding k_def by (rule Least_le[where P="\<lambda>j. \<not> device j", OF j(2)])
  moreover have "\<forall>i<k. device i" unfolding k_def using not_less_Least by blast
  ultimately have "k < n \<and> (\<forall>i<k. device i) \<and> \<not> device k" using j(1) nk by simp
  then show ?thesis by blast
qed

lemma handleConnectionError_keeps:
  "policies (handleConnectionError s) = policies s"
  "stored (handleConnectionError s) = stored s"
  "writes (handleConnectionError s) = writes s"
  "events (handleConnectionError s) = events s \<or> events (handleConnectionError s) = events s @ [ErrorEvent]"
  by (simp_all add: handleConnectionError_def Let_def)

lemma applyPolicy_first_failure:
  "isConnected s \<Longrightarrow> k < length (rules policy) \<Longrightarrow> \<forall>j<k. device j \<Longrightarrow> \<not> device k \<Longrightarrow>
   applyPolicy device fs_ok policy s =
     (Inl FailedToApply,
      handleConnectionError
        (s\<lparr>writes := writes s @ map generatePolicyOids (take (Suc k) (rules policy))\<rparr>))"
  using apply_rules_first_failure[of s k "rules policy" device 0]
  by (simp add: applyPolicy_def)

lemma applyPolicy_all_ok:
  "isConnected s \<Longrightarrow> \<forall>j<length (rules policy). device j \<Longrightarrow>
   applyPolicy device True policy s =
     (Inr (),
      s\<lparr>writes := writes s @ map generatePolicyOids (rules policy),
        policies := map_set (policy_id policy) policy (policies s),
        stored := map_set (policy_id policy) policy (policies s),
        events := events s @ [PolicyApplied policy]\<rparr>)"
  using apply_rules_all_ok[of s "rules policy" device 0]
  by (simp add: applyPolicy_def savePolicies_def)

text \<open>
  C1. On a connected session \<^verbatim>\<open>applyPolicy\<close> sends one SET request for each rule, in the
  order of the rules. If the device refuses the request of rule \<open>k\<close> (counted from 0) after
  accepting those before it, the requests sent are those of the rules up to \<open>k\<close>, none of
  a later rule and none that undoes an earlier one; the call fails, the policy store and
  the stored document are as before, and no \<open>PolicyApplied\<close> event is emitted. If the
  device accepts every request (and the file system accepts the document) the policy is
  set in the store under its identifier, the store is written out, and then the
  \<open>PolicyApplied\<close> event is emitted and the call returns. Whenever some request is
  refused, the call fails and the store, the document and the events are as just said.
\<close>

theorem C1_applyPolicy_in_rule_order:
  assumes "isConnected s"
  shows "(k < length (rules policy) \<and> (\<forall>j<k. device j) \<and> \<not> device k \<longrightarrow>
           fst (applyPolicy device fs_ok policy s) = Inl FailedToApply
           \<and> writes (snd (applyPolicy device fs_ok policy s)) =
               writes s @ map generatePolicyOids (take (Suc k) (rules policy))
           \<and> policies (snd (applyPolicy device fs_ok policy s)) = policies s
           \<and> stored (snd (applyPolicy device fs_ok policy s)) = stored s
           \<and> (events (snd (applyPolicy device fs_ok policy s)) = events s
               \<or> events (snd (applyPolicy device fs_ok policy s)) = events s @ [ErrorEvent]))
       \<and> ((\<forall>j<length (rules policy). device j) \<longrightarrow>
           applyPolicy device True policy s =
             (Inr (),
              s\<lparr>writes := writes s @ map generatePolicyOids (rules policy),
                policies := map_set (policy_id policy) policy (policies s),
                stored := map_set (policy_id policy) policy (policies s),
                events := events s @ [PolicyApplied policy]\<rparr>))
       \<and> (\<not> (\<forall>j<length (rules policy). device j) \<longrightarrow>
           fst (applyPolicy device fs_ok policy s) = Inl FailedToApply
           \<and> policies (snd (applyPolicy device fs_ok policy s)) = policies s
           \<and> stored (snd (applyPolicy device fs_ok policy s)) = stored s
           \<and> PolicyApplied policy \<notin> set (drop (length (events s)) (events (snd (applyPolicy device fs_ok policy s)))))"
proof (intro conjI impI)
  assume k: "k < length (rules policy) \<and> (\<forall>j<k. device j) \<and> \<not> device k"
  let ?s1 = "s\<lparr>writes := writes s @ map generatePolicyOids (take (Suc k) (rules policy))\<rparr>"
  have e: "applyPolicy device fs_ok policy s = (Inl FailedToApply, handleConnectionError ?s1)"
    using assms k by (simp add: applyPolicy_first_failure)
  show "fst (applyPolicy device fs_ok policy s) = Inl FailedToApply" by (simp add: e)
  show "writes (snd (applyPolicy device fs_ok policy s)) =
               writes s @ map generatePolicyOids (take (Suc k) (rules policy))"
    by (simp add: e handleConnectionError_keeps)
  show "policies (snd (applyPolicy device fs_ok policy s)) = policies s"
    by (simp add: e handleConnectionError_keeps)
  show "stored (snd (applyPolicy device fs_ok policy s)) = stored s"
    by (simp add: e handleConnectionError_keeps)
  show "events (snd (applyPolicy device fs_ok policy s)) = events s
               \<or> events (snd (applyPolicy device fs_ok policy s)) = events s @ [ErrorEvent]"
    using handleConnectionError_keeps(4)[of ?s1] by (simp add: e)
next
  assume "\<forall>j<length (rules policy). device j"
  then show "applyPolicy device True policy s =
             (Inr (),
              s\<lparr>writes := writes s @ map generatePolicyOids (rules policy),
                policies := map_set (policy_id policy) policy (policies s),
                stored := map_set (policy_id policy) policy (policies s),
                events := events s @ [PolicyApplied policy]\<rparr>)"
    using assms by (rule applyPolicy_all_ok[rotated])
next
  assume nd: "\<not> (\<forall>j<length (rules policy). device j)"
  from first_failure_exists[OF nd] obtain k where k: "k < length (rules policy)"
      "\<forall>j<k. device j" "\<not> device k" by blast
  let ?s1 = "s\<lparr>writes := writes s @ map generatePolicyOids (take (Suc k) (rules policy))\<rparr>"
  have e: "applyPolicy device fs_ok policy s = (Inl FailedToApply, handleConnectionError ?s1)"
    using assms k by (simp add: applyPolicy_first_failure)
  show "fst (applyPolicy device fs_ok policy s) = Inl FailedToApply" by (simp add: e)
  show "policies (snd (applyPolicy device fs_ok policy s)) = policies s"
    by (simp add: e handleConnectionError_keeps)
  show "stored (snd (applyPolicy device fs_ok policy s)) = stored s"
    by (simp add: e handleConnectionError_keeps)
  show "PolicyApplied policy \<notin> set (drop (length (events s)) (events (snd (applyPolicy device fs_ok policy s))))"
    using handleConnectionError_keeps(4)[of ?s1] by (auto simp: e)
qed

theorem C1_witness:
  "isConnected (new_manager\<lparr>isConnected := True\<rparr>)
   \<and> fst (applyPolicy (\<lambda>j. j \<noteq> 1) True policy1 (new_manager\<lparr>isConnected := True\<rparr>)) = Inl FailedToApply
   \<and> writes (snd (applyPolicy (\<lambda>j. j \<noteq> 1) True policy1 (new_manager\<lparr>isConnected := True\<rparr>)))
       = [generatePolicyOids rule1, generatePolicyOids rule2]
   \<and> policies (snd (applyPolicy (\<lambda>j. j \<noteq> 1) True policy1 (new_manager\<lparr>isConnected := True\<rparr>))) = []
   \<and> stored (snd (applyPolicy (\<lambda>j. j \<noteq> 1) True policy1 (new_manager\<lparr>isConnected := True\<rparr>))) = []
   \<and> fst (applyPolicy (\<lambda>j. 0 < j) True policy1 (new_manager\<lparr>isConnected := True\<rparr>)) = Inl FailedToApply
   \<and> writes (snd (applyPolicy (\<lambda>j. 0 < j) True policy1 (new_manager\<lparr>isConnected := True\<rparr>)))
       = [generatePolicyOids rule1]
   \<and> applyPolicy (\<lambda>j. True) True policy1 (new_manager\<lparr>isConnected := True\<rparr>) =
       (Inr (), new_manager\<lparr>isConnected := True,
          writes := [generatePolicyOids rule1, generatePolicyOids rule2],
          policies := [(''p1'', policy1)], stored := [(''p1'', policy1)],
          events := [PolicyApplied policy1]\<rparr>)"
  using C1_applyPolicy_in_rule_order[of "new_manager\<lparr>isConnected := True\<rparr>" 1 policy1 "\<lambda>j. j \<noteq> 1" True]
    C1_applyPolicy_in_rule_order[of "new_manager\<lparr>isConnected := True\<rparr>" 0 policy1 "\<lambda>j. 0 < j" True]
    C1_applyPolicy_in_rule_order[of "new_manager\<lparr>isConnected := True\<rparr>" 0 policy1 "\<lambda>j. True" True]
  by (simp add: policy1_def new_manager_def)

section \<open>Reconnection\<close>

text \<open>
  In this code the verification read of \<^verbatim>\<open>connect\<close> runs before \<open>isConnected\<close> is set, and
  \<^verbatim>\<open>snmpGet\<close> refuses to read on a session that is not connected: every \<^verbatim>\<open>connect\<close> on a
  disconnected session takes the failure path, whatever the device would answer.
\<close>

lemma connect_disconnected:
  "\<not> isConnected s \<Longrightarrow> connect answer s = handleConnectionError (s\<lparr>session := True\<rparr>)"
  by (simp add: connect_def getStats_def snmpGet_def)

lemma fire_idle: "timers s = [] \<Longrightarrow> fire answer s = s"
  by (simp add: fire_def)

lemma retries_idle: "timers s = [] \<Longrightarrow> retries answers s = s"
  by (induction answers) (simp_all add: fire_idle)

lemma fire_retry:
  "\<not> isConnected s \<Longrightarrow> timers s = [d] \<Longrightarrow> reconnectAttempts s < 5 \<Longrightarrow>
   \<not> isConnected (fire answer s) \<and> reconnectAttempts (fire answer s) = Suc (reconnectAttempts s)
   \<and> timers (fire answer s) = [reconnectDelay] \<and> events (fire answer s) = events s"
  by (simp add: fire_def connect_disconnected handleConnectionError_def maxReconnectAttempts_def Let_def)

lemma fire_exhausted:
  "\<not> isConnected s \<Longrightarrow> timers s = [d] \<Longrightarrow> reconnectAttempts s = 5 \<Longrightarrow>
   \<not> isConnected (fire answer s) \<and> reconnectAttempts (fire answer s) = 6
   \<and> timers (fire answer s) = [] \<and> events (fire answer s) = events s @ [ErrorEvent]"
  by (simp add: fire_def connect_disconnected handleConnectionError_def maxReconnectAttempts_def Let_def)

lemma retries_pending:
  "\<not> isConnected s \<Longrightarrow> timers s = [reconnectDelay] \<Longrightarrow> reconnectAttempts s + length answers \<le> 5 \<Longrightarrow>
   \<not> isConnected (retries answers s)
   \<and> reconnectAttempts (retries answers s) = reconnectAttempts s + length answers
   \<and> timers (retries answers s) = [reconnectDelay] \<and> events (retries answers s) = events s"
proof (induction answers arbitrary: s)
  case Nil
  then show ?case by simp
next
  case (Cons a answers)
  from Cons.prems have lt: "reconnectAttempts s < 5" by simp
  note f = fire_retry[OF Cons.prems(1) Cons.prems(2) lt, of a]
  from f Cons.prems(3) have le: "reconnectAttempts (fire a s) + length answers \<le> 5" by simp
  from f have "\<not> isConnected (fire a s)" "timers (fire a s) = [reconnectDelay]" by simp_all
  from Cons.IH[OF this le] f show ?case by simp
qed

lemma retries_exhausted:
  "\<not> isConnected s \<Longrightarrow> timers s = [reconnectDelay] \<Longrightarrow> reconnectAttempts s \<le> 5 \<Longrightarrow>
   6 \<le> reconnectAttempts s + length answers \<Longrightarrow>
   \<not> isConnected (retries answers s) \<and> reconnectAttempts (retries answers s) = 6
   \<and> timers (retries answers s) = [] \<and> events (retries answers s) = events s @ [ErrorEvent]"
proof (induction answers arbitrary: s)
  case Nil
  then show ?case by simp
next
  case (Cons a answers)
  show ?case
  proof (cases "reconnectAttempts s = 5")
    case True
    note f = fire_exhausted[OF Cons.prems(1) Cons.prems(2) True, of a]
    from f have "retries answers (fire a s) = fire a s" by (simp add: retries_idle)
    with f show ?thesis by simp
  next
    case False
    with Cons.prems(3) have lt: "reconnectAttempts s < 5" by simp
    note f = fire_retry[OF Cons.prems(1) Cons.prems(2) lt, of a]
    from f lt have le: "reconnectAttempts (fire a s) \<le> 5" by simp
    from f Cons.prems(4) have ge: "6 \<le> reconnectAttempts (fire a s) + length answers" by simp
    from f have "\<not> isConnected (fire a s)" "timers (fire a s) = [reconnectDelay]" by simp_all
    from Cons.IH[OF this le ge] f show ?thesis by simp
  qed
qed

lemma connect_first_failure:
  "\<not> isConnected s \<Longrightarrow> reconnectAttempts s = 0 \<Longrightarrow> timers s = [] \<Longrightarrow>
   \<not> isConnected (connect answer s) \<and> reconnectAttempts (connect answer s) = 1
   \<and> timers (connect answer s) = [reconnectDelay] \<and> events (connect answer s) = events s"
  by (simp add: connect_disconnected handleConnectionError_def maxReconnectAttempts_def Let_def)

text \<open>
  C2, against the claim: after exactly five consecutive failures (the first attempt and
  four scheduled ones) the counter is 5, a sixth attempt is pending with the delay of
  5000 ms, and no error event has been emitted; the error event comes with the failure
  of that sixth attempt.
\<close>

theorem C2_counterexample:
  "reconnectAttempts (retries [None, None, None, None] (connect None new_manager)) = 5
   \<and> timers (retries [None, None, None, None] (connect None new_manager)) = [5000]
   \<and> events (retries [None, None, None, None] (connect None new_manager)) = []
   \<and> reconnectAttempts (fire None (retries [None, None, None, None] (connect None new_manager))) = 6
   \<and> events (fire None (retries [None, None, None, None] (connect None new_manager))) = [ErrorEvent]"
  by (simp add: new_manager_def connect_def getStats_def snmpGet_def handleConnectionError_def
      fire_def maxReconnectAttempts_def reconnectDelay_def Let_def)

text \<open>
  C2, amended. Each failure increments the counter; while the counter is at most 5 after
  the increment, another attempt is scheduled with the fixed delay of 5000 ms and no
  event is emitted, and otherwise nothing is scheduled and the error event is emitted.
  From a fresh disconnected session, after the first attempt and \<open>n \<le> 4\<close> scheduled ones
  the counter is \<open>n + 1\<close>, one attempt is pending and no error event was emitted; after the
  first attempt and five scheduled ones (six consecutive failures) the counter is 6,
  nothing is pending, so that no seventh attempt occurs however long one waits, and the
  error event was emitted exactly once. The success path of \<^verbatim>\<open>connect\<close> sets the counter
  to zero.
\<close>

theorem C2_retry_policy:
  assumes "\<not> isConnected s" and "reconnectAttempts s = 0" and "timers s = []"
  shows "reconnectAttempts (handleConnectionError t) = Suc (reconnectAttempts t)
     \<and> (Suc (reconnectAttempts t) \<le> 5 \<longrightarrow>
          timers (handleConnectionError t) = timers t @ [5000]
          \<and> events (handleConnectionError t) = events t)
     \<and> (5 < Suc (reconnectAttempts t) \<longrightarrow>
          timers (handleConnectionError t) = timers t
          \<and> events (handleConnectionError t) = events t @ [ErrorEvent])
     \<and> (length answers \<le> 4 \<longrightarrow>
          reconnectAttempts (retries answers (connect answer s)) = Suc (length answers)
          \<and> timers (retries answers (connect answer s)) = [5000]
          \<and> events (retries answers (connect answer s)) = events s)
     \<and> (5 \<le> length answers \<longrightarrow>
          reconnectAttempts (retries answers (connect answer s)) = 6
          \<and> timers (retries answers (connect answer s)) = []
          \<and> events (retries answers (connect answer s)) = events s @ [ErrorEvent])
     \<and> reconnectAttempts (connect_succeeded t) = 0"
proof -
  note c = connect_first_failure[OF assms, of answer]
  have pending: "length answers \<le> 4 \<Longrightarrow>
          reconnectAttempts (retries answers (connect answer s)) = Suc (length answers)
          \<and> timers (retries answers (connect answer s)) = [5000]
          \<and> events (retries answers (connect answer s)) = events s"
    using retries_pending[of "connect answer s" answers] c by (simp add: reconnectDelay_def)
  have exhausted: "5 \<le> length answers \<Longrightarrow>
          reconnectAttempts (retries answers (connect answer s)) = 6
          \<and> timers (retries answers (connect answer s)) = []
          \<and> events (retries answers (connect answer s)) = events s @ [ErrorEvent]"
    using retries_exhausted[of "connect answer s" answers] c by simp
  have h: "reconnectAttempts (handleConnectionError t) = Suc (reconnectAttempts t)
     \<and> (Suc (reconnectAttempts t) \<le> 5 \<longrightarrow>
          timers (handleConnectionError t) = timers t @ [5000]
          \<and> events (handleConnectionError t) = events t)
     \<and> (5 < Suc (reconnectAttempts t) \<longrightarrow>
          timers (handleConnectionError t) = timers t
          \<and> events (handleConnectionError t) = events t @ [ErrorEvent])"
    by (simp add: handleConnectionError_def Let_def maxReconnectAttempts_def reconnectDelay_def)
  show ?thesis
    using pending exhausted h by (simp add: connect_succeeded_def)
qed

theorem C2_witness:
  "\<not> isConnected new_manager \<and> reconnectAttempts new_manager = 0 \<and> timers new_manager = []
   \<and> reconnectAttempts (handleConnectionError new_manager) = 1
   \<and> timers (handleConnectionError new_manager) = [5000]
   \<and> events (handleConnectionError (new_manager\<lparr>reconnectAttempts := 5\<rparr>)) = [ErrorEvent]
   \<and> timers (handleConnectionError (new_manager\<lparr>reconnectAttempts := 5\<rparr>)) = []
   \<and> reconnectAttempts (retries [None, None] (connect None new_manager)) = 3
   \<and> timers (retries [None, None] (connect None new_manager)) = [5000]
   \<and> events (retries [None, None] (connect None new_manager)) = []
   \<and> reconnectAttempts (retries [Some [1, 2, 3, 4, 5, 6], None, None, None, None] (connect None new_manager)) = 6
   \<and> timers (retries [Some [1, 2, 3, 4, 5, 6], None, None, None, None] (connect None new_manager)) = []
   \<and> events (retries [Some [1, 2, 3, 4, 5, 6], None, None, None, None] (connect None new_manager)) = [ErrorEvent]"
proof -
  have f: "\<not> isConnected new_manager" "reconnectAttempts new_manager = 0" "timers new_manager = []"
    "events new_manager = []"
    by (simp_all add: new_manager_def)
  have t: "reconnectAttempts (new_manager\<lparr>reconnectAttempts := 5\<rparr>) = 5"
    "timers (new_manager\<lparr>reconnectAttempts := 5\<rparr>) = []"
    "events (new_manager\<lparr>reconnectAttempts := 5\<rparr>) = []"
    by (simp_all add: new_manager_def)
  show ?thesis
    using f t
      C2_retry_policy[OF f(1) f(2) f(3), of new_manager "[Some [1, 2, 3, 4, 5, 6], None, None, None, None]" None]
      C2_retry_policy[OF f(1) f(2) f(3), of "new_manager\<lparr>reconnectAttempts := 5\<rparr>" "[None, None]" None]
    by simp
qed

section \<open>Feature extraction\<close>

text \<open>
  C6, against the claim: the record the parser emits for the line \<open>length 100\<close> has no
  address, and the extractor throws on it instead of returning a vector.
\<close>

theorem C6_counterexample:
  "processPacket (\<lambda>i. 0) ''length 100'' = [(fresh_packet 0)\<lparr>length_p := Some 100\<rparr>]
   \<and> extractFeatures (\<lambda>s. Num 0) (\<lambda>t. Num 0) ((fresh_packet 0)\<lparr>length_p := Some 100\<rparr>) = Inl TypeError"
proof -
  have "processPacket (\<lambda>i. 0) ''length 100'' = [(fresh_packet 0)\<lparr>length_p := Some 100\<rparr>]"
    by code_simp
  moreover have "extractFeatures (\<lambda>s. Num 0) (\<lambda>t. Num 0) ((fresh_packet 0)\<lparr>length_p := Some 100\<rparr>) = Inl TypeError"
    by (simp add: extractFeatures_def extractIPFeatures_def fresh_packet_def Let_def)
  ultimately show ?thesis by simp
qed

lemma extractFeatures_present:
  "sourceIP packet = Some a \<Longrightarrow> destIP packet = Some b \<Longrightarrow>
   \<exists>features. extractFeatures toNumber getHours packet = Inr features
     \<and> length features = length protocols + 4"
  by (simp add: extractFeatures_def extractIPFeatures_def Let_def)

lemma extractFeatures_absent:
  "sourceIP packet = None \<or> destIP packet = None \<Longrightarrow>
   extractFeatures toNumber getHours packet = Inl TypeError"
  by (cases "sourceIP packet"; cases "destIP packet")
     (simp_all add: extractFeatures_def extractIPFeatures_def Let_def)

text \<open>
  C6, amended. The extractor is a function of the packet (and of the host's \<^verbatim>\<open>Number\<close> and
  \<^verbatim>\<open>getHours\<close>): on every packet whose source and destination address are both present it
  returns a vector, and the vectors of any two such packets have the same length; on a
  packet that lacks one of the addresses it throws a \<open>TypeError\<close>.
\<close>

theorem C6_extract_fixed_length:
  "(sourceIP p \<noteq> None \<and> destIP p \<noteq> None \<and> sourceIP q \<noteq> None \<and> destIP q \<noteq> None \<longrightarrow>
      (\<exists>fp fq. extractFeatures toNumber getHours p = Inr fp
         \<and> extractFeatures toNumber2 getHours2 q = Inr fq \<and> length fp = length fq))
   \<and> (sourceIP p = None \<or> destIP p = None \<longrightarrow>
        extractFeatures toNumber getHours p = Inl TypeError)"
proof (intro conjI impI)
  assume a: "sourceIP p \<noteq> None \<and> destIP p \<noteq> None \<and> sourceIP q \<noteq> None \<and> destIP q \<noteq> None"
  then obtain a1 b1 a2 b2 where "sourceIP p = Some a1" "destIP p = Some b1"
    "sourceIP q = Some a2" "destIP q = Some b2" by auto
  then show "\<exists>fp fq. extractFeatures toNumber getHours p = Inr fp
         \<and> extractFeatures toNumber2 getHours2 q = Inr fq \<and> length fp = length fq"
    using extractFeatures_present[of p a1 b1 toNumber getHours]
      extractFeatures_present[of q a2 b2 toNumber2 getHours2] by auto
next
  assume "sourceIP p = None \<or> destIP p = None"
  then show "extractFeatures toNumber getHours p = Inl TypeError"
    by (rule extractFeatures_absent)
qed

theorem C6_witness:
  "sourceIP packet1 \<noteq> None \<and> destIP packet1 \<noteq> None
   \<and> sourceIP packet2 \<noteq> None \<and> destIP packet2 \<noteq> None
   \<and> (\<exists>fp fq. extractFeatures (\<lambda>s. Num 0) (\<lambda>t. Num 0) packet1 = Inr fp
         \<and> extractFeatures (\<lambda>s. NaN) (\<lambda>t. Num 23) packet2 = Inr fq \<and> length fp = length fq)
   \<and> sourceIP (packet1\<lparr>destIP := None\<rparr>) \<noteq> None
   \<and> extractFeatures (\<lambda>s. Num 0) (\<lambda>t. Num 0) (packet1\<lparr>destIP := None\<rparr>) = Inl TypeError"
  using C6_extract_fixed_length[of packet1 packet2 "\<lambda>s. Num 0" "\<lambda>t. Num 0" "\<lambda>s. NaN" "\<lambda>t. Num 23"]
    C6_extract_fixed_length[of "packet1\<lparr>destIP := None\<rparr>" packet2 "\<lambda>s. Num 0" "\<lambda>t. Num 0"]
  by (simp add: packet1_def packet2_def)

section \<open>The response to an anomaly\<close>

lemma handleAnomaly_stats_failed:
  "fst (getStats answer (routerManager orch)) = Inl e \<Longrightarrow>
   handleAnomaly answer outcome a orch = orch\<lparr>routerManager := snd (getStats answer (routerManager orch))\<rparr>"
  by (cases "getStats answer (routerManager orch)") (simp add: handleAnomaly_def)

lemma handleAnomaly_calls:
  "fst (getStats answer (routerManager orch)) = Inr stats \<Longrightarrow>
   calls (handleAnomaly answer outcome a orch) =
     (if anomaly_confidence a > lit_0_9 then calls orch @ [BlockIP (sourceIP (anomaly_packet a))]
      else if anomaly_confidence a > lit_0_8
      then calls orch @ [SetBandwidthLimit (sourceIP (anomaly_packet a)) 1]
      else calls orch)"
  by (cases "getStats answer (routerManager orch)")
     (simp add: handleAnomaly_def call_manager_def emit_anomaly_def Let_def)

lemma handleAnomaly_no_action_event:
  "fst (getStats answer (routerManager orch)) = Inr stats \<Longrightarrow> \<not> anomaly_confidence a > lit_0_8 \<Longrightarrow>
   lit_0_8 < lit_0_9 \<Longrightarrow>
   orch_events (handleAnomaly answer outcome a orch) = orch_events orch @ [AnomalyEvent a stats]"
  by (cases "getStats answer (routerManager orch)")
     (simp add: handleAnomaly_def call_manager_def emit_anomaly_def Let_def)

lemma lits_ordered: "lit_0_8 < lit_0_9" "0 < lit_0_8" "lit_0_9 < 1"
  by (simp_all add: lit_0_8_def lit_0_9_def)

text \<open>
  C9, against the claim: with a confidence of 1 and a device that does not answer the
  statistics read, \<^verbatim>\<open>handleAnomaly\<close> makes no call on the policy manager and emits nothing.
\<close>

theorem C9_counterexample:
  "lit_0_9 < 1
   \<and> fst (getStats None (routerManager connected_orchestrator)) = Inl FailedToGetStats
   \<and> calls (handleAnomaly None (\<lambda>c. True)
        \<lparr>anomaly_packet = packet1, anomaly_features = [], anomaly_confidence = 1\<rparr>
        connected_orchestrator) = []
   \<and> orch_events (handleAnomaly None (\<lambda>c. True)
        \<lparr>anomaly_packet = packet1, anomaly_features = [], anomaly_confidence = 1\<rparr>
        connected_orchestrator) = []"
  by (simp add: lits_ordered handleAnomaly_def connected_orchestrator_def new_manager_def
      getStats_def snmpGet_def)

text \<open>
  C9, amended. The response depends on the statistics read: when it succeeds, the source
  address is blocked if the confidence is above 0.9, and limited to 1 Mbps if the
  confidence is above 0.8 and at most 0.9; when it fails, no call is made on the policy
  manager and no anomaly event is emitted.
\<close>

theorem C9_response_needs_stats:
  "(fst (getStats answer (routerManager orch)) = Inr stats \<longrightarrow>
      (lit_0_9 < anomaly_confidence a \<longrightarrow>
         calls (handleAnomaly answer outcome a orch) = calls orch @ [BlockIP (sourceIP (anomaly_packet a))])
      \<and> (lit_0_8 < anomaly_confidence a \<and> anomaly_confidence a \<le> lit_0_9 \<longrightarrow>
         calls (handleAnomaly answer outcome a orch) =
           calls orch @ [SetBandwidthLimit (sourceIP (anomaly_packet a)) 1]))
   \<and> (fst (getStats answer (routerManager orch)) = Inl e \<longrightarrow>
        calls (handleAnomaly answer outcome a orch) = calls orch
        \<and> orch_events (handleAnomaly answer outcome a orch) = orch_events orch)"
  by (auto simp: handleAnomaly_calls handleAnomaly_stats_failed)

theorem C9_witness:
  "fst (getStats (Some [1, 2, 3, 4, 5, 6]) (routerManager connected_orchestrator))
     = Inr \<lparr>cpu = 1, memory = 2, bandwidth_in = 3, bandwidth_out = 4, connections = 5, errors = 6\<rparr>
   \<and> lit_0_9 < 1
   \<and> calls (handleAnomaly (Some [1, 2, 3, 4, 5, 6]) (\<lambda>c. True)
        \<lparr>anomaly_packet = packet1, anomaly_features = [], anomaly_confidence = 1\<rparr>
        connected_orchestrator) = [BlockIP (Some ''10.0.0.5'')]
   \<and> lit_0_8 < lit_0_9
   \<and> calls (handleAnomaly (Some [1, 2, 3, 4, 5, 6]) (\<lambda>c. True)
        \<lparr>anomaly_packet = packet1, anomaly_features = [], anomaly_confidence = lit_0_9\<rparr>
        connected_orchestrator) = [SetBandwidthLimit (Some ''10.0.0.5'') 1]
   \<and> fst (getStats (Some [1, 2, 3]) (routerManager connected_orchestrator)) = Inl FailedToGetStats
   \<and> calls (handleAnomaly (Some [1, 2, 3]) (\<lambda>c. True)
        \<lparr>anomaly_packet = packet1, anomaly_features = [], anomaly_confidence = lit_0_9\<rparr>
        connected_orchestrator) = []"
proof -
  have g: "fst (getStats (Some [1, 2, 3, 4, 5, 6]) (routerManager connected_orchestrator))
     = Inr \<lparr>cpu = 1, memory = 2, bandwidth_in = 3, bandwidth_out = 4, connections = 5, errors = 6\<rparr>"
    by (simp add: connected_orchestrator_def new_manager_def getStats_def snmpGet_def)
  have b: "fst (getStats (Some [1, 2, 3]) (routerManager connected_orchestrator)) = Inl FailedToGetStats"
    by (simp add: connected_orchestrator_def new_manager_def getStats_def snmpGet_def)
  have o: "calls connected_orchestrator = []" "sourceIP packet1 = Some ''10.0.0.5''"
    by (simp_all add: connected_orchestrator_def packet1_def)
  show ?thesis
    using g b o lits_ordered
      C9_response_needs_stats[of "Some [1, 2, 3, 4, 5, 6]" connected_orchestrator
        "\<lparr>cpu = 1, memory = 2, bandwidth_in = 3, bandwidth_out = 4, connections = 5, errors = 6\<rparr>"
        "\<lparr>anomaly_packet = packet1, anomaly_features = [], anomaly_confidence = 1\<rparr>" "\<lambda>c. True"]
      C9_response_needs_stats[of "Some [1, 2, 3, 4, 5, 6]" connected_orchestrator
        "\<lparr>cpu = 1, memory = 2, bandwidth_in = 3, bandwidth_out = 4, connections = 5, errors = 6\<rparr>"
        "\<lparr>anomaly_packet = packet1, anomaly_features = [], anomaly_confidence = lit_0_9\<rparr>" "\<lambda>c. True"]
      C9_response_needs_stats[of "Some [1, 2, 3]" connected_orchestrator
        "\<lparr>cpu = 1, memory = 2, bandwidth_in = 3, bandwidth_out = 4, connections = 5, errors = 6\<rparr>"
        "\<lparr>anomaly_packet = packet1, anomaly_features = [], anomaly_confidence = lit_0_9\<rparr>" "\<lambda>c. True"
        FailedToGetStats]
    by simp
qed

section \<open>The packet handler\<close>

lemma detectAnomaly_features:
  "detectAnomaly toNumber getHours service (Features xs) = Inl (Thrown TypeError)"
  by (simp add: detectAnomaly_def extract_arg_def extractIPFeatures_def Let_def)

lemma detectAnomaly_packet:
  "extractFeatures toNumber getHours packet = Inr features \<Longrightarrow> service features = Inr result \<Longrightarrow>
   detectAnomaly toNumber getHours service (Packet packet) = Inr result"
  by (simp add: detectAnomaly_def extract_arg_def)

lemma handlePacket_never_handles:
  "handlePacket toNumber getHours service answer outcome packet orch = orch"
  by (cases "extractFeatures toNumber getHours packet")
     (simp_all add: handlePacket_def detectAnomaly_features)

text \<open>
  C10. The code at the input of the claim: a packet with both addresses, a scoring
  service that would answer with an anomaly of confidence exactly 0.8, the default
  threshold, and a device that answers the statistics read. The features of the packet
  are extracted and the scorer, given the packet, would return that score; but
  \<^verbatim>\<open>handlePacket\<close> gives the scorer the feature vector, the scorer throws before it asks
  the service, and the handler returns with the orchestrator as it was: no call on the
  policy manager, and also no anomaly handling and no anomaly event.
\<close>

theorem C10_threshold_input:
  "extractFeatures (\<lambda>s. Num 0) (\<lambda>t. Num 0) packet1
     = Inr [Num 1, Num 1, Num 0, Num 0, Num 0, Num 0, Num 0, Num 0, Num 0]
   \<and> detectAnomaly (\<lambda>s. Num 0) (\<lambda>t. Num 0) (\<lambda>fs. Inr score_0_8) (Packet packet1) = Inr score_0_8
   \<and> isAnomaly score_0_8 \<and> confidence score_0_8 = lit_0_8
   \<and> anomalyThreshold connected_orchestrator = lit_0_8
   \<and> fst (getStats (Some [1, 2, 3, 4, 5, 6]) (routerManager connected_orchestrator))
       = Inr \<lparr>cpu = 1, memory = 2, bandwidth_in = 3, bandwidth_out = 4, connections = 5, errors = 6\<rparr>
   \<and> detectAnomaly (\<lambda>s. Num 0) (\<lambda>t. Num 0) (\<lambda>fs. Inr score_0_8)
        (Features [Num 1, Num 1, Num 0, Num 0, Num 0, Num 0, Num 0, Num 0, Num 0])
       = Inl (Thrown TypeError)
   \<and> handlePacket (\<lambda>s. Num 0) (\<lambda>t. Num 0) (\<lambda>fs. Inr score_0_8) (Some [1, 2, 3, 4, 5, 6])
        (\<lambda>c. True) packet1 connected_orchestrator = connected_orchestrator
   \<and> calls (handlePacket (\<lambda>s. Num 0) (\<lambda>t. Num 0) (\<lambda>fs. Inr score_0_8) (Some [1, 2, 3, 4, 5, 6])
        (\<lambda>c. True) packet1 connected_orchestrator) = []
   \<and> orch_events (handlePacket (\<lambda>s. Num 0) (\<lambda>t. Num 0) (\<lambda>fs. Inr score_0_8) (Some [1, 2, 3, 4, 5, 6])
        (\<lambda>c. True) packet1 connected_orchestrator) = []"
proof -
  have x: "extractFeatures (\<lambda>s. Num 0) (\<lambda>t. Num 0) packet1
     = Inr [Num 1, Num 1, Num 0, Num 0, Num 0, Num 0, Num 0, Num 0, Num 0]"
    by (simp add: extractFeatures_def extractIPFeatures_def extractTimeFeatures_def protocols_def
        packet1_def Let_def)
  have p: "detectAnomaly (\<lambda>s. Num 0) (\<lambda>t. Num 0) (\<lambda>fs. Inr score_0_8) (Packet packet1) = Inr score_0_8"
    using x by (simp add: detectAnomaly_packet)
  have g: "fst (getStats (Some [1, 2, 3, 4, 5, 6]) (routerManager connected_orchestrator))
     = Inr \<lparr>cpu = 1, memory = 2, bandwidth_in = 3, bandwidth_out = 4, connections = 5, errors = 6\<rparr>"
    by (simp add: connected_orchestrator_def new_manager_def getStats_def snmpGet_def)
  have i: "isAnomaly score_0_8" "confidence score_0_8 = lit_0_8"
    by (simp_all add: score_0_8_def)
  have o: "anomalyThreshold connected_orchestrator = lit_0_8" "calls connected_orchestrator = []"
    "orch_events connected_orchestrator = []"
    by (simp_all add: connected_orchestrator_def default_threshold_def)
  show ?thesis
    using x p g i o by (simp add: handlePacket_never_handles detectAnomaly_features)
qed

end
